theory Spec2Isabelle
  imports Complex_Main "HOL-Library.Multiset"
begin

section \<open>Data model (states.py)\<close>

text \<open>
  Python floats are modelled by the real numbers they denote: the code below only compares
  them with literals and never does arithmetic on them, so no rounding is involved.
  Python's unbounded \<open>int\<close> is \<open>int\<close>.
\<close>

record EmotionalState =
  security_level :: real
  familiarity_level :: real
  comfort_level :: real
  intimacy_level :: real
  gain_level :: real
  recognition_level :: real
  trust_level :: real

text \<open>\<open>CustomerIntent\<close>: the decision node reads \<open>intent_type\<close> and \<open>confidence\<close> only.\<close>

record CustomerIntent =
  intent_type :: string
  confidence :: real

section \<open>Building the emotional state\<close>

text \<open>
  A value found in a decoded mapping, and the data handed to the two constructors: an
  \<open>EmotionalState\<close> instance, a \<open>dict\<close>, or anything else. Floats are finite.
\<close>

datatype evalue = VNone | VBool bool | VInt int | VFloat real | VStr string | VOther

datatype edata = AnEmotionalState EmotionalState | ADict "string \<rightharpoonup> evalue" | OtherData

datatype py_error = TypeError | ValueError | OverflowError | IndexError

text \<open>\<open>EmotionalState()\<close>: every field at its default.\<close>

definition default_emotional_state :: EmotionalState where
  "default_emotional_state =
     \<lparr>security_level = 0, familiarity_level = 0, comfort_level = 0, intimacy_level = 0,
      gain_level = 0, recognition_level = 0, trust_level = 0\<rparr>"

definition emotional_fields :: "string list" where
  "emotional_fields =
     [''security_level'', ''familiarity_level'', ''comfort_level'', ''intimacy_level'',
      ''gain_level'', ''recognition_level'', ''trust_level'']"

text \<open>
  \<open>float(value)\<close>. An integer converts when its nearest double is finite (the model keeps
  the integer itself, not that double); \<open>float_of_str s\<close> is what \<open>float\<close> reads in the
  string \<open>s\<close>, \<open>None\<close> when it raises.
\<close>

definition float_limit :: int where
  "float_limit = 2 ^ 1024 - 2 ^ 970"

fun py_float :: "(string \<Rightarrow> real option) \<Rightarrow> evalue \<Rightarrow> py_error + real" where
  "py_float float_of_str VNone = Inl TypeError"
| "py_float float_of_str (VBool b) = Inr (if b then 1 else 0)"
| "py_float float_of_str (VInt n) =
     (if \<bar>n\<bar> < float_limit then Inr (real_of_int n) else Inl OverflowError)"
| "py_float float_of_str (VFloat x) = Inr x"
| "py_float float_of_str (VStr s) =
     (case float_of_str s of Some x \<Rightarrow> Inr x | None \<Rightarrow> Inl ValueError)"
| "py_float float_of_str VOther = Inl TypeError"

definition state_of_values :: "real list \<Rightarrow> EmotionalState" where
  "state_of_values vs =
     \<lparr>security_level = vs ! 0, familiarity_level = vs ! 1, comfort_level = vs ! 2,
      intimacy_level = vs ! 3, gain_level = vs ! 4, recognition_level = vs ! 5,
      trust_level = vs ! 6\<rparr>"

subsection \<open>json\_parser\_utils.py, safe\_create\_emotional\_state\<close>

text \<open>
  One field: \<open>data.get(field, 0.0)\<close>, converted when it is an \<open>int\<close> or a \<open>float\<close> (a
  \<open>bool\<close> is an \<open>int\<close>), else \<open>0.0\<close>. \<open>None\<close> is the exception the conversion raises.
\<close>

definition safe_field :: "(string \<rightharpoonup> evalue) \<Rightarrow> string \<Rightarrow> real option" where
  "safe_field data field =
     (case data field of
        None \<Rightarrow> Some 0
      | Some (VBool b) \<Rightarrow> (case py_float (\<lambda>s. None) (VBool b) of Inr x \<Rightarrow> Some x | Inl e \<Rightarrow> None)
      | Some (VInt n) \<Rightarrow> (case py_float (\<lambda>s. None) (VInt n) of Inr x \<Rightarrow> Some x | Inl e \<Rightarrow> None)
      | Some (VFloat x) \<Rightarrow> (case py_float (\<lambda>s. None) (VFloat x) of Inr x \<Rightarrow> Some x | Inl e \<Rightarrow> None)
      | Some v \<Rightarrow> Some 0)"

definition safe_create_emotional_state :: "edata \<Rightarrow> EmotionalState" where
  "safe_create_emotional_state data =
     (case data of
        AnEmotionalState s \<Rightarrow> s
      | ADict d \<Rightarrow>
          (case those (map (safe_field d) emotional_fields) of
             Some vs \<Rightarrow> state_of_values vs
           | None \<Rightarrow> default_emotional_state)
      | OtherData \<Rightarrow> default_emotional_state)"

subsection \<open>response\_validator.py, validate\_emotional\_state\<close>

text \<open>
  One field: converted and limited to the range from 0 to 1; \<open>TypeError\<close> and
  \<open>ValueError\<close> give \<open>0.0\<close>, any other exception leaves the function.
\<close>

definition validated_field ::
  "(string \<Rightarrow> real option) \<Rightarrow> (string \<rightharpoonup> evalue) \<Rightarrow> string \<Rightarrow> py_error + real"
where
  "validated_field float_of_str data field =
     (case py_float float_of_str (case data field of None \<Rightarrow> VFloat 0 | Some v \<Rightarrow> v) of
        Inr x \<Rightarrow> Inr (max 0 (min 1 x))
      | Inl TypeError \<Rightarrow> Inr 0
      | Inl ValueError \<Rightarrow> Inr 0
      | Inl e \<Rightarrow> Inl e)"

fun sequence :: "(py_error + 'a) list \<Rightarrow> py_error + 'a list" where
  "sequence [] = Inr []"
| "sequence (x # xs) =
     (case x of
        Inl e \<Rightarrow> Inl e
      | Inr v \<Rightarrow> (case sequence xs of Inl e \<Rightarrow> Inl e | Inr vs \<Rightarrow> Inr (v # vs)))"

definition validate_emotional_state ::
  "(string \<Rightarrow> real option) \<Rightarrow> edata \<Rightarrow> py_error + EmotionalState"
where
  "validate_emotional_state float_of_str data =
     (case data of
        ADict d \<Rightarrow>
          (case sequence (map (validated_field float_of_str d) emotional_fields) of
             Inl e \<Rightarrow> Inl e
           | Inr vs \<Rightarrow> Inr (state_of_values vs))
      | _ \<Rightarrow> Inr default_emotional_state)"

subsection \<open>The state of the turn (\_design\_node)\<close>

text \<open>
  \<open>evaluated\<close> is the entry \<open>emotional_state\<close> of the evaluation result, \<open>None\<close> when it
  is missing or \<open>None\<close>; \<open>existing\<close> is \<open>state.get("emotional_state")\<close>.
\<close>

definition turn_emotional_state :: "edata option \<Rightarrow> edata \<Rightarrow> EmotionalState" where
  "turn_emotional_state evaluated existing =
     (case evaluated of
        Some d \<Rightarrow> safe_create_emotional_state d
      | None \<Rightarrow> safe_create_emotional_state existing)"

section \<open>The decision node (user\_emotion\_analysis\_agent.py, \_design\_node)\<close>

subsection \<open>Stage progression\<close>

text \<open>
  \<open>current_stage = debug_info.current_stage if debug_info and debug_info.current_stage
  else "initial_contact"\<close>: a missing or empty stage reads as \<open>initial_contact\<close>.
\<close>

definition current_stage_of :: "string option \<Rightarrow> string" where
  "current_stage_of s =
     (case s of None \<Rightarrow> ''initial_contact''
      | Some x \<Rightarrow> if x = [] then ''initial_contact'' else x)"

text \<open>The \<open>if/elif\<close> chain of forward transitions; \<open>new_stage\<close> starts as the current stage.\<close>

definition forward_stage :: "string \<Rightarrow> int \<Rightarrow> EmotionalState \<Rightarrow> string \<Rightarrow> string" where
  "forward_stage current_stage turn_count es customer_intent =
     (if current_stage = ''initial_contact'' then
        (if turn_count \<ge> 1 \<and> comfort_level es > 0.2 then ''ice_breaking'' else current_stage)
      else if current_stage = ''ice_breaking'' then
        (if familiarity_level es > 0.3 then ''subtle_expertise'' else current_stage)
      else if current_stage = ''subtle_expertise'' then
        (if trust_level es > 0.4 then ''pain_point_mining'' else current_stage)
      else if current_stage = ''pain_point_mining'' then
        (if trust_level es > 0.6 \<and> customer_intent \<in> set [''medium'', ''high'']
         then ''solution_visualization'' else current_stage)
      else if current_stage = ''solution_visualization'' then
        (if trust_level es > 0.7 \<and> customer_intent = ''high''
         then ''natural_invitation'' else current_stage)
      else current_stage)"

text \<open>The fallback block that follows the chain and assigns \<open>new_stage\<close> again.\<close>

definition stage_transition :: "string \<Rightarrow> int \<Rightarrow> EmotionalState \<Rightarrow> string \<Rightarrow> string" where
  "stage_transition current_stage turn_count es customer_intent =
     (let new_stage = forward_stage current_stage turn_count es customer_intent in
      if comfort_level es < 0.3 \<and> current_stage \<notin> set [''initial_contact'', ''ice_breaking'']
      then ''ice_breaking''
      else if trust_level es < 0.2 \<and> current_stage \<notin> set [''initial_contact'']
      then ''initial_contact''
      else new_stage)"

subsection \<open>Candidate actions\<close>

text \<open>
  The priority cascade. \<open>invitation_status\<close> is what the invitation judge returned
  (\<open>None\<close> when the key is absent or not a number); \<open>current_customer_intent\<close> is
  \<open>None\<close> when the intent analysis gave nothing.
\<close>

definition stage_actions ::
  "CustomerIntent option \<Rightarrow> string \<Rightarrow> int \<Rightarrow> EmotionalState \<Rightarrow> string \<Rightarrow> string list"
where
  "stage_actions current_customer_intent new_stage turn_count es customer_intent =
     (if new_stage = ''initial_contact'' then [''greeting'', ''needs_analysis'', ''value_display'']
      else if new_stage = ''ice_breaking'' then
        (if turn_count mod 4 = 0 then [''rapport_building'']
         else [''rapport_building'', ''needs_analysis'', ''value_display''])
      else if new_stage = ''subtle_expertise'' then
        (if familiarity_level es > 0.4
         then [''value_display'', ''needs_analysis''] @ [''needs_analysis'']
         else [''value_display'', ''needs_analysis''])
      else if new_stage = ''pain_point_mining'' then
        (if (case current_customer_intent of None \<Rightarrow> False
             | Some ci \<Rightarrow> intent_type ci = ''info_seeking'')
         then [''value_display'', ''needs_analysis'']
         else if trust_level es > 0.6
         then [''needs_analysis'', ''pain_point_test''] @ [''value_display'']
         else [''needs_analysis'', ''pain_point_test''])
      else if new_stage = ''solution_visualization'' then
        (if customer_intent = ''high''
         then [''value_pitch'', ''value_display''] @ [''active_close'']
         else [''value_pitch'', ''value_display''])
      else if new_stage = ''natural_invitation'' then
        (if customer_intent \<noteq> ''high''
         then [''active_close''] @ [''value_pitch'']
         else [''active_close''])
      else [])"

definition primary_actions ::
  "int option \<Rightarrow> CustomerIntent option \<Rightarrow> string \<Rightarrow> int \<Rightarrow> EmotionalState \<Rightarrow> string \<Rightarrow> string list"
where
  "primary_actions invitation_status current_customer_intent new_stage turn_count es customer_intent =
     (if invitation_status = Some 1 then [''active_close'', ''value_display'']
      else case current_customer_intent of
        None \<Rightarrow> stage_actions current_customer_intent new_stage turn_count es customer_intent
      | Some ci \<Rightarrow>
         if intent_type ci \<in> set [''appointment_request'', ''time_confirmation'', ''ready_to_book''] then
           (if confidence ci > 0.8 then [''active_close'', ''value_display'']
            else [''needs_analysis'', ''value_display''])
         else if intent_type ci = ''info_seeking'' then
           (if familiarity_level es > 0.4 then [''value_display''] @ [''needs_analysis'']
            else [''value_display''])
         else if intent_type ci = ''price_inquiry'' then
           (if trust_level es > 0.5 then [''value_display'', ''value_pitch''] @ [''active_close'']
            else [''value_display'', ''value_pitch''])
         else if intent_type ci = ''concern_raised'' then
           (if comfort_level es < 0.4 then [''stress_response'', ''rapport_building''] @ [''rapport_building'']
            else [''stress_response'', ''rapport_building''])
         else stage_actions current_customer_intent new_stage turn_count es customer_intent)"

text \<open>Adjustment 1: by emotional state.\<close>

definition emotion_adjust :: "string \<Rightarrow> EmotionalState \<Rightarrow> string list \<Rightarrow> string list" where
  "emotion_adjust new_stage es candidate_actions =
     (if trust_level es < 0.3 then [''rapport_building'', ''stress_response'', ''needs_analysis'']
      else if comfort_level es < 0.2 \<and> new_stage \<in> set [''solution_visualization'', ''natural_invitation'']
      then ''stress_response'' # candidate_actions
      else candidate_actions)"

text \<open>Adjustment 2: by intent level.\<close>

definition intent_adjust :: "string \<Rightarrow> string \<Rightarrow> string list \<Rightarrow> string list" where
  "intent_adjust new_stage customer_intent candidate_actions =
     (if customer_intent = ''fake_high'' \<and> ''reverse_probe'' \<notin> set candidate_actions
      then candidate_actions @ [''reverse_probe'']
      else if customer_intent = ''low'' \<and> new_stage \<in> set [''solution_visualization'', ''natural_invitation'']
      then [''rapport_building'', ''needs_analysis'', ''stress_response'']
      else candidate_actions)"

text \<open>Step 3: search-space management, keyed by the length of the list.\<close>

definition expand_single :: "EmotionalState \<Rightarrow> string \<Rightarrow> string list" where
  "expand_single es primary_action =
     (if primary_action = ''active_close'' then
        [primary_action]
        @ (if comfort_level es < 0.6 then [''stress_response''] else [])
        @ (if trust_level es > 0.7 then [''value_display''] else [])
      else if primary_action \<in> set [''value_display'', ''value_pitch''] then
        [primary_action] @ [''needs_analysis'']
        @ (if trust_level es > 0.6 then [''active_close''] else [])
      else if primary_action = ''stress_response'' then
        [primary_action] @ [''rapport_building'']
      else [primary_action])"

definition manage_search_space :: "EmotionalState \<Rightarrow> string list \<Rightarrow> string list" where
  "manage_search_space es candidate_actions =
     (let sized =
        (if length candidate_actions = 1 then expand_single es (hd candidate_actions)
         else if length candidate_actions > 3 then take 3 candidate_actions
         else candidate_actions)
      in if sized = [] then [''rapport_building''] else sized)"

text \<open>The list as it stands after the cascade and the two adjustments, before step 3.\<close>

definition adjusted_actions ::
  "int option \<Rightarrow> CustomerIntent option \<Rightarrow> string \<Rightarrow> int \<Rightarrow> EmotionalState \<Rightarrow> string \<Rightarrow> string list"
where
  "adjusted_actions invitation_status current_customer_intent new_stage turn_count es customer_intent =
     intent_adjust new_stage customer_intent
       (emotion_adjust new_stage es
         (primary_actions invitation_status current_customer_intent new_stage turn_count es
            customer_intent))"

text \<open>The list as it stands before the result dictionary is built.\<close>

definition produced_actions ::
  "int option \<Rightarrow> CustomerIntent option \<Rightarrow> string \<Rightarrow> int \<Rightarrow> EmotionalState \<Rightarrow> string \<Rightarrow> string list"
where
  "produced_actions invitation_status current_customer_intent new_stage turn_count es customer_intent =
     manage_search_space es
       (adjusted_actions invitation_status current_customer_intent new_stage turn_count es
          customer_intent)"

text \<open>
  \<open>list(set(candidate_actions))\<close>: every element once, in the iteration order of a Python
  set. \<open>insertion_order\<close> is the set as it is filled, element by element in list order,
  a repeated element being dropped. The iteration order then follows the hash values of the
  strings, which the interpreter salts per process; the model takes the resulting ranking of
  the strings as the parameter \<open>rank\<close>, elements of equal rank staying in insertion order.
\<close>

fun insertion_order :: "string list \<Rightarrow> string list" where
  "insertion_order [] = []"
| "insertion_order (x # xs) = x # insertion_order (removeAll x xs)"

definition list_of_set :: "(string \<Rightarrow> nat) \<Rightarrow> string list \<Rightarrow> string list" where
  "list_of_set rank xs = sort_key rank (insertion_order xs)"

record DesignResult =
  candidate_actions :: "string list"
  current_stage :: string

definition design_node ::
  "(string \<Rightarrow> nat) \<Rightarrow> string option \<Rightarrow> int \<Rightarrow> EmotionalState \<Rightarrow> string
     \<Rightarrow> int option \<Rightarrow> CustomerIntent option \<Rightarrow> DesignResult"
where
  "design_node rank stage turn_count es customer_intent invitation_status current_customer_intent =
     (let new_stage = stage_transition (current_stage_of stage) turn_count es customer_intent in
      \<lparr> candidate_actions =
          list_of_set rank
            (produced_actions invitation_status current_customer_intent new_stage turn_count es
               customer_intent),
        current_stage = new_stage \<rparr>)"

section \<open>Generating and evaluating the candidates (AgentTools.py)\<close>

record EvaluatedResponse =
  action :: string
  response :: string
  score :: real
  reasoning :: string



text \<open>
  A line of the internal monologue, by the place that writes it: a line from before the
  call, the line for a unit whose exception was caught (action and error text), the
  entry a unit returned, and the line for a round in which every unit failed.
\<close>

datatype trace_line =
  Line string | FatalLine string string | EntryLine string | AllFailedLine



subsection \<open>generate\_and\_evaluate\_node\<close>









subsection \<open>self\_verification\_node\<close>

text \<open>
  \<open>sorted(xs, key=score, reverse=True)\<close>: descending, and stable, so responses of equal
  score keep their order.
\<close>

definition sorted_desc :: "EvaluatedResponse list \<Rightarrow> EvaluatedResponse list" where
  "sorted_desc xs = sort_key (\<lambda>x. - score x) xs"

definition high_quality_responses :: "EvaluatedResponse list \<Rightarrow> EvaluatedResponse list" where
  "high_quality_responses evaluated =
     (let h1 = filter (\<lambda>r. score r > 0.3) evaluated;
          h2 = (if h1 = [] then filter (\<lambda>r. score r > 0.2) evaluated else h1)
      in if h2 = [] \<and> evaluated \<noteq> [] then sorted_desc evaluated else h2)"

text \<open>The text returned when there is nothing to choose from, as UTF-8 bytes.\<close>

definition fallback_response :: string where
  "fallback_response =
     map char_of
       [229, 151, 175, 229, 151, 175, 239, 188, 140, 229, 165, 189, 231, 154, 132 :: nat]"

text \<open>The \<open>last_message\<close> of the returned dictionary.\<close>

definition self_verification_node :: "EvaluatedResponse list \<Rightarrow> string" where
  "self_verification_node evaluated =
     (let h = high_quality_responses evaluated in
      if h = [] then fallback_response
      else if length h = 1 then response (hd h)
      else response (hd (sorted_desc h)))"

section \<open>The proactive event scheduler\<close>

subsection \<open>Time, values and collaborators\<close>

text \<open>
  An instant is a count of microseconds on the Beijing wall clock (UTC+8, a fixed offset),
  counted from 1970-01-01T00:00:00+08:00, a Thursday. Every \<open>datetime\<close> of the scheduler is
  in that zone. Instants are taken to lie in the range \<open>datetime\<close> can represent.
\<close>

type_synonym instant = int









text \<open>A decoded JSON value of a decision; \<open>JIso t\<close> is the string \<open>isoformat()\<close> gives for \<open>t\<close>.\<close>

datatype jval = JNull | JBool bool | JNum real | JStr string | JIso instant | JOther










subsection \<open>The hard rule of the triggered prompt (prompts/Prompts.py)\<close>






subsection \<open>Reading the decision (utils.py, parse\_event\_decision)\<close>







subsection \<open>The two scheduler nodes (nodes.py)\<close>











section \<open>Example inputs\<close>

definition wary_state :: EmotionalState where
  "wary_state = \<lparr>security_level = 0.5, familiarity_level = 0.5, comfort_level = 0.1,
     intimacy_level = 0.5, gain_level = 0.5, recognition_level = 0.5, trust_level = 0.1\<rparr>"

definition uneasy_state :: EmotionalState where
  "uneasy_state = \<lparr>security_level = 0.5, familiarity_level = 0.5, comfort_level = 0.1,
     intimacy_level = 0.5, gain_level = 0.5, recognition_level = 0.5, trust_level = 0.9\<rparr>"

definition distrustful_state :: EmotionalState where
  "distrustful_state = \<lparr>security_level = 0.5, familiarity_level = 0.5, comfort_level = 0.5,
     intimacy_level = 0.5, gain_level = 0.5, recognition_level = 0.5, trust_level = 0.1\<rparr>"

definition even_state :: EmotionalState where
  "even_state = \<lparr>security_level = 0.5, familiarity_level = 0.5, comfort_level = 0.5,
     intimacy_level = 0.5, gain_level = 0.5, recognition_level = 0.5, trust_level = 0.5\<rparr>"

definition asks_for_information :: CustomerIntent where
  "asks_for_information = \<lparr>intent_type = ''info_seeking'', confidence = 0.9\<rparr>"

text \<open>A ranking of the action names that puts \<open>needs_analysis\<close> before every other one.\<close>

definition needs_first :: "string \<Rightarrow> nat" where
  "needs_first a = (if a = ''needs_analysis'' then 0 else 1)"












text \<open>Two evaluated responses, neither above 0.3, and three units of which the second fails.\<close>

definition careful_reply :: EvaluatedResponse where
  "careful_reply =
     \<lparr>action = ''rapport_building'', response = ''take your time'', score = 0.25,
      reasoning = ''polite''\<rparr>"

definition weak_reply :: EvaluatedResponse where
  "weak_reply =
     \<lparr>action = ''value_pitch'', response = ''buy now'', score = 0.15, reasoning = ''pushy''\<rparr>"



text \<open>Emotional states and inputs that reach each branch of step 3 of the decision node.\<close>

definition reserved_state :: EmotionalState where
  "reserved_state = \<lparr>security_level = 0.5, familiarity_level = 0.3, comfort_level = 0.5,
     intimacy_level = 0.5, gain_level = 0.5, recognition_level = 0.5, trust_level = 0.5\<rparr>"

definition trusting_state :: EmotionalState where
  "trusting_state = \<lparr>security_level = 0.5, familiarity_level = 0.3, comfort_level = 0.5,
     intimacy_level = 0.5, gain_level = 0.5, recognition_level = 0.5, trust_level = 0.8\<rparr>"

text \<open>A decoded evaluation whose trust value is above the range.\<close>

definition overshooting_dict :: "string \<rightharpoonup> evalue" where
  "overshooting_dict = [''trust_level'' \<mapsto> VFloat 1.5, ''comfort_level'' \<mapsto> VFloat 0.4]"

section \<open>The emotional state of a turn\<close>

text \<open>The validator keeps every field between 0 and 1.\<close>

lemma sequence_Inr:
  "sequence xs = Inr vs \<Longrightarrow> length vs = length xs \<and> (\<forall>i<length xs. xs ! i = Inr (vs ! i))"
proof (induction xs arbitrary: vs)
  case Nil
  then show ?case by simp
next
  case (Cons x xs)
  then obtain v ws where x: "x = Inr v" and s: "sequence xs = Inr ws" and vs: "vs = v # ws"
    by (auto split: sum.splits)
  from Cons.IH [OF s] have "length ws = length xs" "\<forall>i<length xs. xs ! i = Inr (ws ! i)" by simp_all
  then show ?case using x vs by (auto simp: nth_Cons split: nat.splits)
qed

lemma validated_field_range:
  "validated_field f d k = Inr x \<Longrightarrow> 0 \<le> x \<and> x \<le> 1"
  unfolding validated_field_def
  by (auto split: sum.splits py_error.splits)

lemma validate_emotional_state_range:
  assumes "validate_emotional_state f data = Inr s"
  shows "0 \<le> security_level s \<and> security_level s \<le> 1
       \<and> 0 \<le> familiarity_level s \<and> familiarity_level s \<le> 1
       \<and> 0 \<le> comfort_level s \<and> comfort_level s \<le> 1
       \<and> 0 \<le> intimacy_level s \<and> intimacy_level s \<le> 1
       \<and> 0 \<le> gain_level s \<and> gain_level s \<le> 1
       \<and> 0 \<le> recognition_level s \<and> recognition_level s \<le> 1
       \<and> 0 \<le> trust_level s \<and> trust_level s \<le> 1"
proof (cases data)
  case (ADict d)
  with assms obtain vs where
    sq: "sequence (map (validated_field f d) emotional_fields) = Inr vs"
    and s: "s = state_of_values vs"
    unfolding validate_emotional_state_def by (auto split: sum.splits)
  have len: "length emotional_fields = 7" by (simp add: emotional_fields_def)
  have r: "0 \<le> vs ! i \<and> vs ! i \<le> 1" if "i < 7" for i
  proof -
    have i: "i < length (map (validated_field f d) emotional_fields)" using that len by simp
    with sequence_Inr [OF sq] have
      "map (validated_field f d) emotional_fields ! i = Inr (vs ! i)" by blast
    then have "validated_field f d (emotional_fields ! i) = Inr (vs ! i)"
      using i by simp
    then show ?thesis by (rule validated_field_range)
  qed
  have "0 \<le> vs ! 0 \<and> vs ! 0 \<le> 1" "0 \<le> vs ! 1 \<and> vs ! 1 \<le> 1" "0 \<le> vs ! 2 \<and> vs ! 2 \<le> 1"
    "0 \<le> vs ! 3 \<and> vs ! 3 \<le> 1" "0 \<le> vs ! 4 \<and> vs ! 4 \<le> 1" "0 \<le> vs ! 5 \<and> vs ! 5 \<le> 1"
    "0 \<le> vs ! 6 \<and> vs ! 6 \<le> 1"
    by (rule r, simp)+
  then show ?thesis unfolding s state_of_values_def by simp
next
  case (AnEmotionalState x)
  with assms show ?thesis
    unfolding validate_emotional_state_def by (auto simp: default_emotional_state_def)
next
  case OtherData
  with assms show ?thesis
    unfolding validate_emotional_state_def by (auto simp: default_emotional_state_def)
qed

text \<open>
  C1. Every field of the emotional state of a turn should lie between 0 and 1. The
  validator limits the values, but the turn builds its state with
  \<open>safe_create_emotional_state\<close>, which converts and does not limit: a decoded evaluation
  with \<open>trust_level = 1.5\<close> gives a state with that value, which the decision node takes
  over as it is, where the validator gives 1.
\<close>

theorem safe_create_keeps_out_of_range:
  "safe_create_emotional_state (ADict overshooting_dict)
     = \<lparr>security_level = 0, familiarity_level = 0, comfort_level = 0.4, intimacy_level = 0,
        gain_level = 0, recognition_level = 0, trust_level = 1.5\<rparr>
   \<and> turn_emotional_state
         (Some (AnEmotionalState (safe_create_emotional_state (ADict overshooting_dict)))) OtherData
     = safe_create_emotional_state (ADict overshooting_dict)
   \<and> \<not> trust_level
           (turn_emotional_state
              (Some (AnEmotionalState (safe_create_emotional_state (ADict overshooting_dict))))
              OtherData) \<le> 1
   \<and> validate_emotional_state (\<lambda>s. None) (ADict overshooting_dict)
     = Inr \<lparr>security_level = 0, familiarity_level = 0, comfort_level = 0.4, intimacy_level = 0,
        gain_level = 0, recognition_level = 0, trust_level = 1\<rparr>"
  by (simp add: turn_emotional_state_def safe_create_emotional_state_def emotional_fields_def
        safe_field_def overshooting_dict_def state_of_values_def validate_emotional_state_def
        validated_field_def)

section \<open>Candidate actions: size and content\<close>

lemma set_insertion_order: "set (insertion_order xs) = set xs"
  by (induction xs rule: insertion_order.induct) auto

lemma distinct_insertion_order: "distinct (insertion_order xs)"
  by (induction xs rule: insertion_order.induct) (auto simp: set_insertion_order)

lemma set_list_of_set: "set (list_of_set rank xs) = set xs"
  by (simp add: list_of_set_def set_insertion_order)

lemma distinct_list_of_set: "distinct (list_of_set rank xs)"
  by (simp add: list_of_set_def distinct_insertion_order)

lemma expand_single_length: "length (expand_single es a) \<in> {1, 2, 3}"
  unfolding expand_single_def by simp

lemma manage_search_space_length: "length (manage_search_space es xs) \<in> {1, 2, 3}"
proof -
  have "length xs = 0 \<or> length xs = 1 \<or> length xs = 2 \<or> length xs = 3 \<or> length xs > 3"
    by arith
  then consider "xs = []" | "length xs = 1" | "length xs = 2" | "length xs = 3" | "length xs > 3"
    by auto
  then show ?thesis
  proof cases
    case 2
    with expand_single_length [of es "hd xs"] show ?thesis
      unfolding manage_search_space_def Let_def by auto
  qed (auto simp: manage_search_space_def Let_def)
qed

lemma card_set_bounds:
  assumes "length (p :: string list) \<in> {1, 2, 3}"
  shows "card (set p) \<in> {1, 2, 3}"
proof -
  have a: "card (set p) \<le> length p" by (rule card_length)
  have "p \<noteq> []" using assms by auto
  then have "0 < card (set p)" by (simp add: card_gt_0_iff)
  moreover have "length p \<le> 3" using assms by auto
  ultimately have "1 \<le> card (set p) \<and> card (set p) \<le> 3" using a by linarith
  then show ?thesis by (simp only: insert_iff) arith
qed

lemma produced_actions_card:
  "card (set (produced_actions ist cci ns tc es ci)) \<in> {1, 2, 3}"
  unfolding produced_actions_def by (rule card_set_bounds [OF manage_search_space_length])

lemma low_trust_produced:
  "trust_level es = 0.1 \<Longrightarrow>
   set (produced_actions ist cci ns tc es ci)
     = {''rapport_building'', ''stress_response'', ''needs_analysis''}"
  unfolding produced_actions_def adjusted_actions_def emotion_adjust_def intent_adjust_def
    manage_search_space_def Let_def
  by auto

text \<open>
  C4. With \<open>trust_level = 0.1\<close>, whatever the stage, the turn count, the intent, the
  invitation status, the comfort and the intent level are, the candidate actions the node
  returns are exactly rapport\_building, stress\_response and needs\_analysis.
\<close>

theorem low_trust_candidates:
  "trust_level es = 0.1 \<Longrightarrow>
   set (candidate_actions (design_node rank stage turn_count es customer_intent invitation_status cci))
     = {''rapport_building'', ''stress_response'', ''needs_analysis''}"
  unfolding design_node_def Let_def by (simp add: set_list_of_set low_trust_produced)

theorem low_trust_candidates_witness:
  "trust_level wary_state = 0.1 \<and>
   set (candidate_actions
          (design_node length (Some ''solution_visualization'') 5 wary_state ''fake_high'' (Some 1) None))
     = {''rapport_building'', ''stress_response'', ''needs_analysis''}"
  using low_trust_candidates
    [of wary_state length "Some ''solution_visualization''" 5 "''fake_high''" "Some 1" None]
  by (simp add: wary_state_def)

lemma list_of_set_single: "list_of_set rank [a] = [a]"
  by (simp add: list_of_set_def)

lemma manage_empty: "manage_search_space es [] = [''rapport_building'']"
  by (simp add: manage_search_space_def)

lemma manage_long: "length xs > 3 \<Longrightarrow> manage_search_space es xs = take 3 xs"
  by (auto simp: manage_search_space_def Let_def)

lemma manage_mid: "length xs = 2 \<or> length xs = 3 \<Longrightarrow> manage_search_space es xs = xs"
  by (auto simp: manage_search_space_def Let_def)

lemma manage_single: "manage_search_space es [a] = expand_single es a"
  by (simp add: manage_search_space_def Let_def expand_single_def)

lemma design_candidates:
  "candidate_actions (design_node rank stage turn_count es customer_intent invitation_status cci)
     = list_of_set rank
         (manage_search_space es
            (adjusted_actions invitation_status cci
               (stage_transition (current_stage_of stage) turn_count es customer_intent)
               turn_count es customer_intent))"
  by (simp add: design_node_def Let_def produced_actions_def)

text \<open>
  C5. For every input the node returns one, two or three distinct candidate actions. Step 3
  works on the list left by the cascade and the adjustments: an empty list becomes
  rapport\_building alone; a list of more than three is cut to its first three; a list
  of two or three is kept; a single action is joined by its companions (active\_close by
  stress\_response when comfort is below 0.6 and by value\_display when trust is above
  0.7; value\_display and value\_pitch by needs\_analysis, and by active\_close when trust
  is above 0.6; stress\_response by rapport\_building), any other single action staying
  alone.
\<close>

theorem candidate_count:
  "let adj = adjusted_actions invitation_status cci
               (stage_transition (current_stage_of stage) turn_count es customer_intent)
               turn_count es customer_intent;
       res = candidate_actions
               (design_node rank stage turn_count es customer_intent invitation_status cci)
   in card (set res) \<in> {1, 2, 3} \<and> length res \<in> {1, 2, 3}
    \<and> (adj = [] \<longrightarrow> res = [''rapport_building''])
    \<and> (length adj > 3 \<longrightarrow> set res = set (take 3 adj))
    \<and> (length adj = 2 \<or> length adj = 3 \<longrightarrow> set res = set adj)
    \<and> (adj = [''active_close''] \<longrightarrow>
          set res = {''active_close''}
            \<union> (if comfort_level es < 0.6 then {''stress_response''} else {})
            \<union> (if trust_level es > 0.7 then {''value_display''} else {}))
    \<and> (adj = [''value_display''] \<or> adj = [''value_pitch''] \<longrightarrow>
          set res = set adj \<union> {''needs_analysis''}
            \<union> (if trust_level es > 0.6 then {''active_close''} else {}))
    \<and> (adj = [''stress_response''] \<longrightarrow> set res = {''stress_response'', ''rapport_building''})
    \<and> (\<forall>a. adj = [a]
             \<and> a \<notin> {''active_close'', ''value_display'', ''value_pitch'', ''stress_response''}
           \<longrightarrow> res = [a])"
proof -
  define adj where "adj = adjusted_actions invitation_status cci
               (stage_transition (current_stage_of stage) turn_count es customer_intent)
               turn_count es customer_intent"
  define res where "res = candidate_actions
               (design_node rank stage turn_count es customer_intent invitation_status cci)"
  have r: "res = list_of_set rank (manage_search_space es adj)"
    unfolding res_def adj_def by (rule design_candidates)
  have s: "set res = set (manage_search_space es adj)"
    unfolding r by (rule set_list_of_set)
  have c: "card (set res) \<in> {1, 2, 3}"
    unfolding s by (rule card_set_bounds [OF manage_search_space_length])
  have "distinct res" unfolding r by (rule distinct_list_of_set)
  then have "length res = card (set res)" by (simp add: distinct_card)
  with c have l: "length res \<in> {1, 2, 3}" by simp
  have 1: "adj = [] \<longrightarrow> res = [''rapport_building'']"
    unfolding r by (simp add: manage_empty list_of_set_single)
  have 2: "length adj > 3 \<longrightarrow> set res = set (take 3 adj)"
    unfolding s by (simp add: manage_long)
  have 3: "length adj = 2 \<or> length adj = 3 \<longrightarrow> set res = set adj"
    unfolding s using manage_mid [of adj es] by auto
  have 4: "adj = [''active_close''] \<longrightarrow>
          set res = {''active_close''}
            \<union> (if comfort_level es < 0.6 then {''stress_response''} else {})
            \<union> (if trust_level es > 0.7 then {''value_display''} else {})"
    unfolding s by (auto simp: manage_single expand_single_def)
  have 5: "adj = [''value_display''] \<or> adj = [''value_pitch''] \<longrightarrow>
          set res = set adj \<union> {''needs_analysis''}
            \<union> (if trust_level es > 0.6 then {''active_close''} else {})"
    unfolding s by (auto simp: manage_single expand_single_def)
  have 6: "adj = [''stress_response''] \<longrightarrow> set res = {''stress_response'', ''rapport_building''}"
    unfolding s by (auto simp: manage_single expand_single_def)
  have 7: "\<forall>a. adj = [a]
             \<and> a \<notin> {''active_close'', ''value_display'', ''value_pitch'', ''stress_response''}
           \<longrightarrow> res = [a]"
    unfolding r by (auto simp: manage_single expand_single_def list_of_set_single)
  show ?thesis
    unfolding Let_def adj_def [symmetric] res_def [symmetric]
    using c l 1 2 3 4 5 6 7 by (intro conjI)
qed

theorem candidate_count_witness:
  "adjusted_actions None None ''closing'' 1 even_state ''medium'' = []
   \<and> candidate_actions (design_node needs_first (Some ''closing'') 1 even_state ''medium'' None None)
       = [''rapport_building'']
   \<and> adjusted_actions None (Some asks_for_information) ''ice_breaking'' 1 reserved_state ''medium''
       = [''value_display'']
   \<and> set (candidate_actions
            (design_node needs_first (Some ''ice_breaking'') 1 reserved_state ''medium'' None
               (Some asks_for_information)))
       = {''value_display'', ''needs_analysis''}
   \<and> set (candidate_actions
            (design_node needs_first (Some ''ice_breaking'') 1 trusting_state ''medium'' None
               (Some asks_for_information)))
       = {''value_display'', ''needs_analysis'', ''active_close''}
   \<and> adjusted_actions None None ''initial_contact'' 0 even_state ''fake_high''
       = [''greeting'', ''needs_analysis'', ''value_display'', ''reverse_probe'']
   \<and> set (candidate_actions
            (design_node needs_first (Some ''initial_contact'') 0 even_state ''fake_high'' None None))
       = {''greeting'', ''needs_analysis'', ''value_display''}"
proof -
  have s1: "stage_transition (current_stage_of (Some ''closing'')) 1 even_state ''medium'' = ''closing''"
    by (simp add: stage_transition_def forward_stage_def current_stage_of_def even_state_def)
  have s2: "stage_transition (current_stage_of (Some ''ice_breaking'')) 1 reserved_state ''medium''
              = ''ice_breaking''"
    by (simp add: stage_transition_def forward_stage_def current_stage_of_def reserved_state_def)
  have s3: "stage_transition (current_stage_of (Some ''ice_breaking'')) 1 trusting_state ''medium''
              = ''ice_breaking''"
    by (simp add: stage_transition_def forward_stage_def current_stage_of_def trusting_state_def)
  have s4: "stage_transition (current_stage_of (Some ''initial_contact'')) 0 even_state ''fake_high''
              = ''initial_contact''"
    by (simp add: stage_transition_def forward_stage_def current_stage_of_def even_state_def)
  have a1: "adjusted_actions None None ''closing'' 1 even_state ''medium'' = []"
    by (simp add: adjusted_actions_def primary_actions_def stage_actions_def emotion_adjust_def
          intent_adjust_def even_state_def)
  have a2: "adjusted_actions None (Some asks_for_information) ''ice_breaking'' 1 reserved_state
              ''medium'' = [''value_display'']"
    by (simp add: adjusted_actions_def primary_actions_def emotion_adjust_def intent_adjust_def
          reserved_state_def asks_for_information_def)
  have a3: "adjusted_actions None (Some asks_for_information) ''ice_breaking'' 1 trusting_state
              ''medium'' = [''value_display'']"
    by (simp add: adjusted_actions_def primary_actions_def emotion_adjust_def intent_adjust_def
          trusting_state_def asks_for_information_def)
  have a4: "adjusted_actions None None ''initial_contact'' 0 even_state ''fake_high''
       = [''greeting'', ''needs_analysis'', ''value_display'', ''reverse_probe'']"
    by (simp add: adjusted_actions_def primary_actions_def stage_actions_def emotion_adjust_def
          intent_adjust_def even_state_def)
  have t2: "trust_level reserved_state = 0.5" by (simp add: reserved_state_def)
  have t3: "trust_level trusting_state = 0.8" by (simp add: trusting_state_def)
  from candidate_count [of None None "Some ''closing''" 1 even_state "''medium''" needs_first]
  have w1: "candidate_actions
         (design_node needs_first (Some ''closing'') 1 even_state ''medium'' None None)
       = [''rapport_building'']"
    unfolding Let_def s1 using a1 by simp
  from candidate_count [of None "Some asks_for_information" "Some ''ice_breaking''" 1
      reserved_state "''medium''" needs_first]
  have w2: "set (candidate_actions
            (design_node needs_first (Some ''ice_breaking'') 1 reserved_state ''medium'' None
               (Some asks_for_information)))
       = {''value_display'', ''needs_analysis''}"
    unfolding Let_def s2 a2 t2 by auto
  from candidate_count [of None "Some asks_for_information" "Some ''ice_breaking''" 1
      trusting_state "''medium''" needs_first]
  have w3: "set (candidate_actions
            (design_node needs_first (Some ''ice_breaking'') 1 trusting_state ''medium'' None
               (Some asks_for_information)))
       = {''value_display'', ''needs_analysis'', ''active_close''}"
    unfolding Let_def s3 a3 t3 by auto
  from candidate_count [of None None "Some ''initial_contact''" 0 even_state "''fake_high''"
      needs_first]
  have w4: "set (candidate_actions
            (design_node needs_first (Some ''initial_contact'') 0 even_state ''fake_high'' None None))
       = {''greeting'', ''needs_analysis'', ''value_display''}"
    unfolding Let_def s4 a4 by auto
  show ?thesis using a1 w1 a2 w2 w3 a4 w4 by (intro conjI)
qed

text \<open>
  C6 as stated: the returned list is the produced list with repetitions dropped, in the order
  of first production. It fails: for a customer who asks for information the node produces
  value\_display, then needs\_analysis, and under the ranking \<open>needs_first\<close> returns them
  the other way round.
\<close>

theorem first_seen_order_counterexample:
  "produced_actions None (Some asks_for_information) ''ice_breaking'' 1 even_state ''medium''
     = [''value_display'', ''needs_analysis'']
   \<and> candidate_actions
       (design_node needs_first (Some ''ice_breaking'') 1 even_state ''medium'' None
          (Some asks_for_information))
     = [''needs_analysis'', ''value_display'']
   \<and> candidate_actions
       (design_node needs_first (Some ''ice_breaking'') 1 even_state ''medium'' None
          (Some asks_for_information))
     \<noteq> insertion_order
         (produced_actions None (Some asks_for_information) ''ice_breaking'' 1 even_state ''medium'')"
  by (simp add: design_node_def list_of_set_def produced_actions_def adjusted_actions_def
        primary_actions_def
        emotion_adjust_def intent_adjust_def manage_search_space_def stage_transition_def
        forward_stage_def current_stage_of_def even_state_def asks_for_information_def
        needs_first_def)

text \<open>
  C6 as amended: the returned list holds every produced action exactly once; nothing is said
  about the order.
\<close>

theorem candidates_deduplicated:
  "distinct (candidate_actions
               (design_node rank stage turn_count es customer_intent invitation_status cci))
   \<and> set (candidate_actions
               (design_node rank stage turn_count es customer_intent invitation_status cci))
     = set (produced_actions invitation_status cci
              (stage_transition (current_stage_of stage) turn_count es customer_intent)
              turn_count es customer_intent)"
  unfolding design_node_def Let_def by (simp add: set_list_of_set distinct_list_of_set)

text \<open>
  C7. The fallback is decided on the stage the turn started in and replaces whatever the
  forward chain chose: low comfort outside the first two stages gives ice\_breaking;
  otherwise low trust outside the first stage gives initial\_contact.
\<close>

theorem regression_overrides_forward:
  "(comfort_level es < 0.3 \<and> stage \<notin> {''initial_contact'', ''ice_breaking''}
      \<longrightarrow> stage_transition stage turn_count es customer_intent = ''ice_breaking'')
   \<and> (\<not> (comfort_level es < 0.3 \<and> stage \<notin> {''initial_contact'', ''ice_breaking''})
        \<and> trust_level es < 0.2 \<and> stage \<noteq> ''initial_contact''
      \<longrightarrow> stage_transition stage turn_count es customer_intent = ''initial_contact'')"
  unfolding stage_transition_def Let_def by simp

theorem regression_overrides_forward_witness:
  "comfort_level uneasy_state < 0.3
   \<and> ''subtle_expertise'' \<notin> {''initial_contact'', ''ice_breaking''}
   \<and> forward_stage ''subtle_expertise'' 3 uneasy_state ''high'' = ''pain_point_mining''
   \<and> stage_transition ''subtle_expertise'' 3 uneasy_state ''high'' = ''ice_breaking''
   \<and> \<not> (comfort_level distrustful_state < 0.3
          \<and> ''ice_breaking'' \<notin> {''initial_contact'', ''ice_breaking''})
   \<and> trust_level distrustful_state < 0.2 \<and> ''ice_breaking'' \<noteq> ''initial_contact''
   \<and> forward_stage ''ice_breaking'' 3 distrustful_state ''high'' = ''subtle_expertise''
   \<and> stage_transition ''ice_breaking'' 3 distrustful_state ''high'' = ''initial_contact''"
  using regression_overrides_forward [of uneasy_state "''subtle_expertise''" 3 "''high''"]
    regression_overrides_forward [of distrustful_state "''ice_breaking''" 3 "''high''"]
  by (simp add: uneasy_state_def distrustful_state_def forward_stage_def)

section \<open>Failures of single units\<close>







section \<open>Choosing the response\<close>

lemma hd_insort_key:
  "hd (insort_key f x ys) = (if ys = [] \<or> f x \<le> f (hd ys) then x else hd ys)"
  by (cases ys) auto

lemma sort_key_Nil_iff: "sort_key f xs = [] \<longleftrightarrow> xs = []"
  by (metis length_sort length_0_conv)

lemma first_best_split:
  fixes f :: "'a \<Rightarrow> real"
  assumes "xs \<noteq> []"
  shows "\<exists>pre post. xs = pre @ hd (sort_key f xs) # post
           \<and> (\<forall>y\<in>set xs. f (hd (sort_key f xs)) \<le> f y)
           \<and> (\<forall>y\<in>set pre. f (hd (sort_key f xs)) < f y)"
  using assms
proof (induction xs)
  case Nil
  then show ?case by simp
next
  case (Cons x xs)
  show ?case
  proof (cases "xs = []")
    case True
    then have "x # xs = [] @ hd (sort_key f (x # xs)) # []" by simp
    moreover have "\<forall>y\<in>set (x # xs). f (hd (sort_key f (x # xs))) \<le> f y" using True by simp
    ultimately show ?thesis by (metis empty_iff list.set(1))
  next
    case False
    from Cons.IH [OF False] obtain pre post where
      d: "xs = pre @ hd (sort_key f xs) # post"
      and m: "\<forall>y\<in>set xs. f (hd (sort_key f xs)) \<le> f y"
      and p: "\<forall>y\<in>set pre. f (hd (sort_key f xs)) < f y"
      by blast
    let ?m = "hd (sort_key f xs)"
    have ne: "sort_key f xs \<noteq> []" using False by (simp add: sort_key_Nil_iff)
    show ?thesis
    proof (cases "f x \<le> f ?m")
      case True
      then have h: "hd (sort_key f (x # xs)) = x" by (simp add: hd_insort_key)
      have "x # xs = [] @ x # xs" by simp
      moreover have "\<forall>y\<in>set (x # xs). f x \<le> f y" using True m by auto
      ultimately show ?thesis unfolding h by (metis empty_iff list.set(1)) 
    next
      case False
      then have h: "hd (sort_key f (x # xs)) = ?m" using ne by (simp add: hd_insort_key)
      have "x # xs = (x # pre) @ ?m # post" using d by simp
      moreover have "\<forall>y\<in>set (x # xs). f ?m \<le> f y" using False m by auto
      moreover have "\<forall>y\<in>set (x # pre). f ?m < f y" using False p by auto
      ultimately show ?thesis unfolding h by blast
    qed
  qed
qed

lemma filter_split:
  "filter P ys = pre @ m # post \<Longrightarrow> \<exists>us vs. ys = us @ m # vs \<and> filter P us = pre"
proof (induction ys arbitrary: pre)
  case Nil
  then show ?case by simp
next
  case (Cons y ys)
  show ?case
  proof (cases "P y")
    case False
    with Cons.prems have "filter P ys = pre @ m # post" by simp
    from Cons.IH [OF this] obtain us vs where "ys = us @ m # vs" "filter P us = pre" by blast
    then have "y # ys = (y # us) @ m # vs \<and> filter P (y # us) = pre" using False by simp
    then show ?thesis by blast
  next
    case True
    show ?thesis
    proof (cases pre)
      case Nil
      with Cons.prems True have "y = m" by simp
      then have "y # ys = [] @ m # ys \<and> filter P [] = pre" using Nil by simp
      then show ?thesis by blast
    next
      case (Cons a pre')
      with Cons.prems True have "filter P ys = pre' @ m # post" and ay: "a = y"
        using \<open>filter P (y # ys) = pre @ m # post\<close> by auto
      from Cons.IH [OF this(1)] obtain us vs where "ys = us @ m # vs" "filter P us = pre'" by blast
      then have "y # ys = (y # us) @ m # vs \<and> filter P (y # us) = pre" using True Cons ay by simp
      then show ?thesis by blast
    qed
  qed
qed


lemma hd_sorted_desc_idem: "hd (sorted_desc (sorted_desc xs)) = hd (sorted_desc xs)"
  unfolding sorted_desc_def by (simp add: sort_key_id_if_sorted)

lemma high_quality_nonempty: "rs \<noteq> [] \<Longrightarrow> high_quality_responses rs \<noteq> []"
  unfolding high_quality_responses_def Let_def sorted_desc_def
  by (auto simp: sort_key_Nil_iff)

lemma selected_is_hd_sorted:
  "rs \<noteq> [] \<Longrightarrow> self_verification_node rs = response (hd (sorted_desc (high_quality_responses rs)))"
proof -
  assume ne: "rs \<noteq> []"
  have "length h = 1 \<Longrightarrow> hd (sorted_desc h) = hd h" for h :: "EvaluatedResponse list"
    by (cases h) (auto simp: sorted_desc_def)
  then show ?thesis
    using high_quality_nonempty [OF ne] unfolding self_verification_node_def Let_def by auto
qed

lemma best_of_tier:
  assumes ne: "t \<noteq> []" and sub: "t = filter P rs \<or> t = rs"
  shows "\<exists>pre x post. rs = pre @ x # post \<and> x = hd (sorted_desc t) \<and> x \<in> set t
           \<and> (\<forall>r\<in>set t. score r \<le> score x)
           \<and> (\<forall>r\<in>set pre. r \<in> set t \<longrightarrow> score r < score x)"
proof -
  let ?x = "hd (sorted_desc t)"
  from first_best_split [OF ne, of "\<lambda>r. - score r"] obtain pre post where
    d: "t = pre @ ?x # post"
    and m: "\<forall>y\<in>set t. score y \<le> score ?x"
    and p: "\<forall>y\<in>set pre. score y < score ?x"
    unfolding sorted_desc_def by auto
  have xin: "?x \<in> set t" using d by (metis in_set_conv_decomp)
  from sub show ?thesis
  proof
    assume t: "t = filter P rs"
    with d have "filter P rs = pre @ ?x # post" by simp
    from filter_split [OF this] obtain us vs where
      r: "rs = us @ ?x # vs" and u: "filter P us = pre" by blast
    have "\<forall>r\<in>set us. r \<in> set t \<longrightarrow> score r < score ?x"
      using p u t by auto
    with r xin m show ?thesis by blast
  next
    assume "t = rs"
    with d p m xin show ?thesis by blast
  qed
qed


lemma high_quality_tiers:
  "high_quality_responses rs =
     (if filter (\<lambda>r. score r > 0.3) rs \<noteq> [] then filter (\<lambda>r. score r > 0.3) rs
      else if filter (\<lambda>r. score r > 0.2) rs \<noteq> [] then filter (\<lambda>r. score r > 0.2) rs
      else sorted_desc rs)"
  unfolding high_quality_responses_def Let_def sorted_desc_def by (cases rs) auto

lemma selected_first_best:
  assumes ne: "rs \<noteq> []"
  shows "\<exists>pre x post. rs = pre @ x # post \<and> self_verification_node rs = response x
           \<and> x \<in> set (high_quality_responses rs)
           \<and> (\<forall>r\<in>set (high_quality_responses rs). score r \<le> score x)
           \<and> (\<forall>r\<in>set pre. r \<in> set (high_quality_responses rs) \<longrightarrow> score r < score x)"
proof -
  let ?t = "high_quality_responses rs"
  have sel: "self_verification_node rs = response (hd (sorted_desc ?t))"
    by (rule selected_is_hd_sorted [OF ne])
  have tne: "?t \<noteq> []" by (rule high_quality_nonempty [OF ne])
  consider (a) "?t = filter (\<lambda>r. score r > 0.3) rs" | (b) "?t = filter (\<lambda>r. score r > 0.2) rs"
    | (c) "?t = sorted_desc rs"
    using high_quality_tiers [of rs] by metis
  then show ?thesis
  proof cases
    case a
    from best_of_tier [where t="?t" and P="\<lambda>r. score r > 0.3" and rs=rs] tne a sel show ?thesis by metis
  next
    case b
    from best_of_tier [where t="?t" and P="\<lambda>r. score r > 0.2" and rs=rs] tne b sel show ?thesis by metis
  next
    case c
    have s: "set ?t = set rs" using c by (simp add: sorted_desc_def)
    have h: "hd (sorted_desc ?t) = hd (sorted_desc rs)" using c by (simp add: hd_sorted_desc_idem)
    from best_of_tier [where t=rs and P="\<lambda>r. True" and rs=rs] ne obtain pre x post where
      "rs = pre @ x # post" "x = hd (sorted_desc rs)" "x \<in> set rs"
      "\<forall>r\<in>set rs. score r \<le> score x" "\<forall>r\<in>set pre. r \<in> set rs \<longrightarrow> score r < score x"
      by blast
    with sel h s show ?thesis by metis
  qed
qed

text \<open>
  C2. An empty list gives the fixed fallback text. Otherwise the responses scoring above
  0.3 are kept, else those above 0.2, else the whole list in descending order of score; a
  single survivor is chosen as it is; in every case the chosen response has the highest
  score among the survivors and is the first such response of the input list. The list
  of scores 0.25 and 0.15 gives the first response.
\<close>

theorem response_selection:
  "self_verification_node [] = fallback_response
   \<and> high_quality_responses rs =
       (if filter (\<lambda>r. score r > 0.3) rs \<noteq> [] then filter (\<lambda>r. score r > 0.3) rs
        else if filter (\<lambda>r. score r > 0.2) rs \<noteq> [] then filter (\<lambda>r. score r > 0.2) rs
        else sorted_desc rs)
   \<and> (\<forall>x. high_quality_responses rs = [x] \<longrightarrow> self_verification_node rs = response x)
   \<and> (rs \<noteq> [] \<longrightarrow>
        (\<exists>pre x post. rs = pre @ x # post \<and> self_verification_node rs = response x
           \<and> x \<in> set (high_quality_responses rs)
           \<and> (\<forall>r\<in>set (high_quality_responses rs). score r \<le> score x)
           \<and> (\<forall>r\<in>set pre. r \<in> set (high_quality_responses rs) \<longrightarrow> score r < score x)))
   \<and> self_verification_node
         [\<lparr>action = a1, response = t1, score = 0.25, reasoning = g1\<rparr>,
          \<lparr>action = a2, response = t2, score = 0.15, reasoning = g2\<rparr>] = t1"
proof -
  have 1: "self_verification_node [] = fallback_response"
    by (simp add: self_verification_node_def high_quality_responses_def)
  have 3: "\<forall>x. high_quality_responses rs = [x] \<longrightarrow> self_verification_node rs = response x"
    by (simp add: self_verification_node_def)
  have 4: "rs \<noteq> [] \<longrightarrow>
        (\<exists>pre x post. rs = pre @ x # post \<and> self_verification_node rs = response x
           \<and> x \<in> set (high_quality_responses rs)
           \<and> (\<forall>r\<in>set (high_quality_responses rs). score r \<le> score x)
           \<and> (\<forall>r\<in>set pre. r \<in> set (high_quality_responses rs) \<longrightarrow> score r < score x))"
    using selected_first_best by blast
  have 5: "self_verification_node
         [\<lparr>action = a1, response = t1, score = 0.25, reasoning = g1\<rparr>,
          \<lparr>action = a2, response = t2, score = 0.15, reasoning = g2\<rparr>] = t1"
    by (simp add: self_verification_node_def high_quality_responses_def)
  show ?thesis using 1 high_quality_tiers [of rs] 3 4 5 by (intro conjI)
qed

theorem response_selection_witness:
  "high_quality_responses [careful_reply, weak_reply] = [careful_reply]
   \<and> self_verification_node [careful_reply, weak_reply] = ''take your time''
   \<and> high_quality_responses [weak_reply, weak_reply\<lparr>response := ''second''\<rparr>]
       = [weak_reply, weak_reply\<lparr>response := ''second''\<rparr>]
   \<and> self_verification_node [weak_reply, weak_reply\<lparr>response := ''second''\<rparr>] = ''buy now''"
  using response_selection [of "[careful_reply, weak_reply]"]
    response_selection [of "[weak_reply, weak_reply\<lparr>response := ''second''\<rparr>]"]
  by (simp add: careful_reply_def weak_reply_def self_verification_node_def
        high_quality_responses_def sorted_desc_def)

section \<open>The scheduler: the hard rule\<close>









section \<open>The scheduler: reading the decision\<close>







section \<open>The scheduler: the two timestamps\<close>









end
